theory Spec2Isabelle
  imports Main "HOL-Library.Word"
begin

unbundle bit_operations_syntax

section \<open>Data model of pca9685lib.c\<close>

type_synonym uint8_t = "8 word"
type_synonym uint16_t = "16 word"

text \<open>
  Every function of the driver returns one of the two result codes of pca9685lib.h.
\<close>

datatype status = PCA9685LIB_SUCCESS | PCA9685LIB_ERROR

text \<open>
  A named bit-field of the mode register unions: the position of its lowest bit in the
  register byte, and its width in bits.
\<close>

record bitfield =
  bf_offset :: nat
  bf_width :: nat

text \<open>
  The macros and the bit-field layout that pca9685lib.c takes from pca9685lib.h. The
  header is not among the sources, so the functions below take it as a parameter. The
  macros are integer constants of C, hence \<open>nat\<close>: the source compares and adds them
  after integer promotion.
\<close>

record header =
  PCA9685_MODE1_REG_ADDR :: nat
  PCA9685_MODE2_REG_ADDR :: nat
  PCA9685_LED0_ON_L_REG_ADDR :: nat
  PCA9685_LED0_ON_H_REG_ADDR :: nat
  PCA9685_LED0_OFF_L_REG_ADDR :: nat
  PCA9685_LED0_OFF_H_REG_ADDR :: nat
  PCA9685_LED15_OFF_H_REG_ADDR :: nat
  PCA9685_ALL_LED_ON_L_REG_ADDR :: nat
  PCA9685_ALL_LED_ON_H_REG_ADDR :: nat
  PCA9685_ALL_LED_OFF_L_REG_ADDR :: nat
  PCA9685_ALL_LED_OFF_H_REG_ADDR :: nat
  PCA9685_PRE_SCALE_REG_ADDR :: nat
  PCA9685_TEST_MODE_REG_ADDR :: nat
  PCA9685_MAX_PWM_CHANNELS :: nat
  PCA9685_MAX_PWM_VALUE :: nat
  PCA9685_MIN_PRESCALER :: nat
  mode1_restart :: bitfield
  mode1_sleep :: bitfield
  mode2_outne :: bitfield
  mode2_invrt :: bitfield

text \<open>
  Modelled from the spec: pca9685lib.h is missing. The numeric limits as the spec gives
  them (sections 3 and 6): channel index at most 15, PWM value at most 4095, prescaler at
  least 3.
\<close>

definition limits_ok :: "header \<Rightarrow> bool" where
  "limits_ok h \<longleftrightarrow>
     PCA9685_MAX_PWM_CHANNELS h = 15 \<and>
     PCA9685_MAX_PWM_VALUE h = 4095 \<and>
     PCA9685_MIN_PRESCALER h = 3"

text \<open>
  Modelled from the spec: pca9685lib.h is missing. The register map as the spec describes
  it (sections 3, 4.2 and 6): the registers in the order Mode1, Mode2, the channel
  registers, the ALL-LED registers, the prescaler, the test-mode register, all of them
  8-bit addresses; four consecutive registers per channel (ON-low, ON-high, OFF-low,
  OFF-high) for sixteen channels, LED15 OFF-high being the last of them; the four ALL-LED
  registers consecutive in the same order.
\<close>

definition regmap_ok :: "header \<Rightarrow> bool" where
  "regmap_ok h \<longleftrightarrow>
     PCA9685_MODE1_REG_ADDR h < PCA9685_MODE2_REG_ADDR h \<and>
     PCA9685_MODE2_REG_ADDR h < PCA9685_LED0_ON_L_REG_ADDR h \<and>
     PCA9685_LED0_ON_H_REG_ADDR h = PCA9685_LED0_ON_L_REG_ADDR h + 1 \<and>
     PCA9685_LED0_OFF_L_REG_ADDR h = PCA9685_LED0_ON_L_REG_ADDR h + 2 \<and>
     PCA9685_LED0_OFF_H_REG_ADDR h = PCA9685_LED0_ON_L_REG_ADDR h + 3 \<and>
     PCA9685_LED15_OFF_H_REG_ADDR h = PCA9685_LED0_ON_L_REG_ADDR h + 63 \<and>
     PCA9685_LED15_OFF_H_REG_ADDR h < PCA9685_ALL_LED_ON_L_REG_ADDR h \<and>
     PCA9685_ALL_LED_ON_H_REG_ADDR h = PCA9685_ALL_LED_ON_L_REG_ADDR h + 1 \<and>
     PCA9685_ALL_LED_OFF_L_REG_ADDR h = PCA9685_ALL_LED_ON_L_REG_ADDR h + 2 \<and>
     PCA9685_ALL_LED_OFF_H_REG_ADDR h = PCA9685_ALL_LED_ON_L_REG_ADDR h + 3 \<and>
     PCA9685_ALL_LED_OFF_H_REG_ADDR h < PCA9685_PRE_SCALE_REG_ADDR h \<and>
     PCA9685_PRE_SCALE_REG_ADDR h < PCA9685_TEST_MODE_REG_ADDR h \<and>
     PCA9685_TEST_MODE_REG_ADDR h < 256"

text \<open>
  Modelled from the spec: pca9685lib.h is missing. The bit-fields as the spec describes
  them (section 3): restart and sleep are single bits of the Mode1 byte.
\<close>

definition bitfields_ok :: "header \<Rightarrow> bool" where
  "bitfields_ok h \<longleftrightarrow>
     bf_width (mode1_restart h) = 1 \<and> bf_offset (mode1_restart h) < 8 \<and>
     bf_width (mode1_sleep h) = 1 \<and> bf_offset (mode1_sleep h) < 8"

text \<open>
  Modelled from the spec: pca9685lib.h is missing. One header that meets the spec's
  description, with the addresses and bit positions of the PCA9685 register map; it is the
  concrete instance at which the theorems below are evaluated.
\<close>

definition pca9685_header :: header where
  "pca9685_header =
     \<lparr> PCA9685_MODE1_REG_ADDR = 0x00,
       PCA9685_MODE2_REG_ADDR = 0x01,
       PCA9685_LED0_ON_L_REG_ADDR = 0x06,
       PCA9685_LED0_ON_H_REG_ADDR = 0x07,
       PCA9685_LED0_OFF_L_REG_ADDR = 0x08,
       PCA9685_LED0_OFF_H_REG_ADDR = 0x09,
       PCA9685_LED15_OFF_H_REG_ADDR = 0x45,
       PCA9685_ALL_LED_ON_L_REG_ADDR = 0xFA,
       PCA9685_ALL_LED_ON_H_REG_ADDR = 0xFB,
       PCA9685_ALL_LED_OFF_L_REG_ADDR = 0xFC,
       PCA9685_ALL_LED_OFF_H_REG_ADDR = 0xFD,
       PCA9685_PRE_SCALE_REG_ADDR = 0xFE,
       PCA9685_TEST_MODE_REG_ADDR = 0xFF,
       PCA9685_MAX_PWM_CHANNELS = 15,
       PCA9685_MAX_PWM_VALUE = 4095,
       PCA9685_MIN_PRESCALER = 3,
       mode1_restart = \<lparr> bf_offset = 7, bf_width = 1 \<rparr>,
       mode1_sleep = \<lparr> bf_offset = 4, bf_width = 1 \<rparr>,
       mode2_outne = \<lparr> bf_offset = 0, bf_width = 2 \<rparr>,
       mode2_invrt = \<lparr> bf_offset = 4, bf_width = 1 \<rparr> \<rparr>"

text \<open>
  Assignment to a bit-field member of a mode register union, \<open>u.bitfield.f = v\<close>: the
  value is cut to the field's width and replaces the field's bits of the register byte;
  the other bits of the byte stay.
\<close>

definition bitfield_assign :: "bitfield \<Rightarrow> uint8_t \<Rightarrow> uint8_t \<Rightarrow> uint8_t" where
  "bitfield_assign f v regValue =
     (regValue AND NOT (push_bit (bf_offset f) (mask (bf_width f))))
       OR push_bit (bf_offset f) (v AND mask (bf_width f))"

section \<open>The bus transport\<close>

text \<open>
  One call of the transport: opening channel \<open>n\<close>, writing a byte to a register of the
  device at an address, reading a register of the device at an address.
\<close>

datatype i2c_call =
    I2cInit "16 word"
  | I2cWrite uint8_t uint8_t uint8_t
  | I2cRead uint8_t uint8_t

text \<open>
  The bus: the register file of every device on it (device address, then register
  address), the transport calls issued so far, oldest first, and a fault schedule:
  \<open>faulty n\<close> says that call number \<open>n\<close> (counted from 0) fails.
\<close>

record bus =
  regs :: "uint8_t \<Rightarrow> uint8_t \<Rightarrow> uint8_t"
  calls :: "i2c_call list"
  faulty :: "nat \<Rightarrow> bool"

text \<open>
  Modelled from the spec: the transport (us-i2c) is missing. Its contract is the spec's
  (section 6): open, write and read each succeed or fail. A write that succeeds persists
  in the register file; a read that succeeds returns the byte the register holds, the
  last one written; a call that fails changes no register and delivers no byte. Every
  call is logged. The first component of a result says that the call returned
  \<open>US_I2C_SUCCESS\<close>.
\<close>

definition i2cInit :: "16 word \<Rightarrow> 16 word \<Rightarrow> bus \<Rightarrow> bool \<times> 16 word \<times> bus" where
  "i2cInit i2cDevNumber i2cConf b =
     (let b' = b\<lparr>calls := calls b @ [I2cInit i2cDevNumber]\<rparr>
      in if faulty b (length (calls b)) then (False, i2cConf, b')
         else (True, i2cDevNumber, b'))"

definition i2cWrite :: "uint8_t \<Rightarrow> uint8_t \<Rightarrow> uint8_t \<Rightarrow> bus \<Rightarrow> bool \<times> bus" where
  "i2cWrite addr reg data b =
     (let b' = b\<lparr>calls := calls b @ [I2cWrite addr reg data]\<rparr>
      in if faulty b (length (calls b)) then (False, b')
         else (True, b'\<lparr>regs := (regs b)(addr := (regs b addr)(reg := data))\<rparr>))"

definition i2cRead :: "uint8_t \<Rightarrow> uint8_t \<Rightarrow> bus \<Rightarrow> uint8_t option \<times> bus" where
  "i2cRead addr reg b =
     (let b' = b\<lparr>calls := calls b @ [I2cRead addr reg]\<rparr>
      in if faulty b (length (calls b)) then (None, b')
         else (Some (regs b addr reg), b'))"

section \<open>The controller handle\<close>

text \<open>
  \<open>PCA9685I2CConf_t\<close>: the transport's handle (here the number of the channel it was
  opened on) and the device address. A pointer to it, as to every output destination, is
  an \<open>option\<close>: \<open>None\<close> is \<open>NULL\<close>, \<open>Some x\<close> points to a cell that holds \<open>x\<close>.
\<close>

record PCA9685I2CConf_t =
  i2cConf :: "16 word"
  i2cAddr :: uint8_t

section \<open>Register access\<close>

definition PCA9685WriteReg ::
  "header \<Rightarrow> PCA9685I2CConf_t option \<Rightarrow> uint8_t \<Rightarrow> uint8_t \<Rightarrow> bus \<Rightarrow> status \<times> bus" where
  "PCA9685WriteReg h controllerConf reg data b =
     (case controllerConf of
        None \<Rightarrow> (PCA9685LIB_ERROR, b)
      | Some c \<Rightarrow>
          if (unat reg > PCA9685_LED15_OFF_H_REG_ADDR h
                \<and> unat reg < PCA9685_ALL_LED_ON_L_REG_ADDR h)
              \<or> unat reg = PCA9685_TEST_MODE_REG_ADDR h
          then (PCA9685LIB_ERROR, b)
          else (case i2cWrite (i2cAddr c) reg data b of
                  (ok, b') \<Rightarrow>
                    if \<not> ok then (PCA9685LIB_ERROR, b') else (PCA9685LIB_SUCCESS, b')))"

text \<open>
  The read returns, besides the result code, the content of the destination \<open>data\<close>
  after the call.
\<close>

definition PCA9685ReadReg ::
  "header \<Rightarrow> PCA9685I2CConf_t option \<Rightarrow> uint8_t \<Rightarrow> uint8_t option \<Rightarrow> bus
     \<Rightarrow> status \<times> uint8_t option \<times> bus" where
  "PCA9685ReadReg h controllerConf reg data b =
     (case controllerConf of
        None \<Rightarrow> (PCA9685LIB_ERROR, data, b)
      | Some c \<Rightarrow>
          if data = None then (PCA9685LIB_ERROR, data, b)
          else if (unat reg > PCA9685_LED15_OFF_H_REG_ADDR h
                     \<and> unat reg < PCA9685_ALL_LED_ON_L_REG_ADDR h)
                   \<or> unat reg = PCA9685_TEST_MODE_REG_ADDR h
          then (PCA9685LIB_ERROR, data, b)
          else (case i2cRead (i2cAddr c) reg b of
                  (None, b') \<Rightarrow> (PCA9685LIB_ERROR, data, b')
                | (Some v, b') \<Rightarrow> (PCA9685LIB_SUCCESS, Some v, b')))"

text \<open>
  The content of a local variable whose address was passed as a destination; the address
  of a local is never \<open>NULL\<close>, the second argument is the value it held before.
\<close>

definition local_value :: "'a option \<Rightarrow> 'a \<Rightarrow> 'a" where
  "local_value cell before = (case cell of None \<Rightarrow> before | Some v \<Rightarrow> v)"

text \<open>
  \<open>(uint16_t) ((tmpValue_h << 8U) | tmpValue_l)\<close>: both bytes are promoted to 32-bit
  integers, the result is cut to 16 bits.
\<close>

definition merge_bytes :: "uint8_t \<Rightarrow> uint8_t \<Rightarrow> uint16_t" where
  "merge_bytes tmpValue_h tmpValue_l =
     ucast ((push_bit 8 (ucast tmpValue_h :: 32 word)) OR (ucast tmpValue_l :: 32 word))"

text \<open>\<open>(uint8_t) v\<close> and \<open>(uint8_t) (v >> 8U)\<close> of a 16-bit value promoted to 32 bits.\<close>

definition low_byte :: "uint16_t \<Rightarrow> uint8_t" where
  "low_byte v = ucast v"

definition high_byte :: "uint16_t \<Rightarrow> uint8_t" where
  "high_byte v = ucast (drop_bit 8 (ucast v :: 32 word))"

text \<open>
  \<open>BASE + (channel * 4U)\<close> passed as a \<open>uint8_t\<close> register address: the sum is computed
  on promoted integers and cut to 8 bits by the call.
\<close>

definition channel_reg :: "nat \<Rightarrow> uint8_t \<Rightarrow> uint8_t" where
  "channel_reg base channel = of_nat (base + unat channel * 4)"

section \<open>Device operations\<close>

definition PCA9685_Init ::
  "PCA9685I2CConf_t option \<Rightarrow> uint8_t \<Rightarrow> 16 word \<Rightarrow> bus
     \<Rightarrow> status \<times> PCA9685I2CConf_t option \<times> bus" where
  "PCA9685_Init controllerConf i2cAddress i2cDevNumber b =
     (case controllerConf of
        None \<Rightarrow> (PCA9685LIB_ERROR, None, b)
      | Some c \<Rightarrow>
          (case i2cInit i2cDevNumber (i2cConf c) b of
             (ok, hdl, b') \<Rightarrow>
               if \<not> ok then (PCA9685LIB_ERROR, Some (c\<lparr>i2cConf := hdl\<rparr>), b')
               else (PCA9685LIB_SUCCESS,
                     Some (c\<lparr>i2cConf := hdl, i2cAddr := i2cAddress\<rparr>), b')))"

definition PCA9685_SetPrescaler ::
  "header \<Rightarrow> PCA9685I2CConf_t option \<Rightarrow> uint8_t \<Rightarrow> bus \<Rightarrow> status \<times> bus" where
  "PCA9685_SetPrescaler h controllerConf prescale b =
     (if controllerConf = None then (PCA9685LIB_ERROR, b)
      else
        let prescale = (if unat prescale < PCA9685_MIN_PRESCALER h
                        then of_nat (PCA9685_MIN_PRESCALER h) else prescale)
        in case PCA9685WriteReg h controllerConf
                  (of_nat (PCA9685_PRE_SCALE_REG_ADDR h)) prescale b of
             (st, b') \<Rightarrow>
               if st \<noteq> PCA9685LIB_SUCCESS then (PCA9685LIB_ERROR, b')
               else (PCA9685LIB_SUCCESS, b'))"

text \<open>
  \<open>PCA9685_GetPWM\<close> returns the result code, the contents of the destinations
  \<open>onValue\<close> and \<open>offValue\<close> after the call, and the bus.
\<close>

definition PCA9685_GetPWM ::
  "header \<Rightarrow> PCA9685I2CConf_t option \<Rightarrow> uint8_t \<Rightarrow> uint16_t option \<Rightarrow> uint16_t option
     \<Rightarrow> bus \<Rightarrow> status \<times> uint16_t option \<times> uint16_t option \<times> bus" where
  "PCA9685_GetPWM h controllerConf channel onValue offValue b =
     (if controllerConf = None \<or> onValue = None \<or> offValue = None
      then (PCA9685LIB_ERROR, onValue, offValue, b)
      else if unat channel > PCA9685_MAX_PWM_CHANNELS h
      then (PCA9685LIB_ERROR, onValue, offValue, b)
      else
        case PCA9685ReadReg h controllerConf
               (channel_reg (PCA9685_LED0_ON_L_REG_ADDR h) channel) (Some 0) b of
          (st1, cell1, b1) \<Rightarrow>
        if st1 \<noteq> PCA9685LIB_SUCCESS then (PCA9685LIB_ERROR, onValue, offValue, b1)
        else
        let tmpValue_l = local_value cell1 0 in
        case PCA9685ReadReg h controllerConf
               (channel_reg (PCA9685_LED0_ON_H_REG_ADDR h) channel) (Some 0) b1 of
          (st2, cell2, b2) \<Rightarrow>
        if st2 \<noteq> PCA9685LIB_SUCCESS then (PCA9685LIB_ERROR, onValue, offValue, b2)
        else
        let tmpValue_h = local_value cell2 0;
            onValue = Some (merge_bytes tmpValue_h tmpValue_l) in
        case PCA9685ReadReg h controllerConf
               (channel_reg (PCA9685_LED0_OFF_L_REG_ADDR h) channel) (Some tmpValue_l) b2 of
          (st3, cell3, b3) \<Rightarrow>
        if st3 \<noteq> PCA9685LIB_SUCCESS then (PCA9685LIB_ERROR, onValue, offValue, b3)
        else
        let tmpValue_l = local_value cell3 tmpValue_l in
        case PCA9685ReadReg h controllerConf
               (channel_reg (PCA9685_LED0_OFF_H_REG_ADDR h) channel) (Some tmpValue_h) b3 of
          (st4, cell4, b4) \<Rightarrow>
        if st4 \<noteq> PCA9685LIB_SUCCESS then (PCA9685LIB_ERROR, onValue, offValue, b4)
        else
        let tmpValue_h = local_value cell4 tmpValue_h;
            offValue = Some (merge_bytes tmpValue_h tmpValue_l)
        in (PCA9685LIB_SUCCESS, onValue, offValue, b4))"

definition PCA9685_SetPWM ::
  "header \<Rightarrow> PCA9685I2CConf_t option \<Rightarrow> uint8_t \<Rightarrow> uint16_t \<Rightarrow> uint16_t \<Rightarrow> bus
     \<Rightarrow> status \<times> bus" where
  "PCA9685_SetPWM h controllerConf channel onValue offValue b =
     (if controllerConf = None then (PCA9685LIB_ERROR, b)
      else if unat channel > PCA9685_MAX_PWM_CHANNELS h then (PCA9685LIB_ERROR, b)
      else if unat onValue > PCA9685_MAX_PWM_VALUE h
              \<or> unat offValue > PCA9685_MAX_PWM_VALUE h
      then (PCA9685LIB_ERROR, b)
      else
        case PCA9685WriteReg h controllerConf
               (channel_reg (PCA9685_LED0_ON_L_REG_ADDR h) channel) (low_byte onValue) b of
          (st1, b1) \<Rightarrow>
        if st1 \<noteq> PCA9685LIB_SUCCESS then (PCA9685LIB_ERROR, b1)
        else
        case PCA9685WriteReg h controllerConf
               (channel_reg (PCA9685_LED0_ON_H_REG_ADDR h) channel) (high_byte onValue) b1 of
          (st2, b2) \<Rightarrow>
        if st2 \<noteq> PCA9685LIB_SUCCESS then (PCA9685LIB_ERROR, b2)
        else
        case PCA9685WriteReg h controllerConf
               (channel_reg (PCA9685_LED0_OFF_L_REG_ADDR h) channel) (low_byte offValue) b2 of
          (st3, b3) \<Rightarrow>
        if st3 \<noteq> PCA9685LIB_SUCCESS then (PCA9685LIB_ERROR, b3)
        else
        case PCA9685WriteReg h controllerConf
               (channel_reg (PCA9685_LED0_OFF_H_REG_ADDR h) channel) (high_byte offValue) b3 of
          (st4, b4) \<Rightarrow>
        if st4 \<noteq> PCA9685LIB_SUCCESS then (PCA9685LIB_ERROR, b4)
        else (PCA9685LIB_SUCCESS, b4))"

definition PCA9685_SetAllPWM ::
  "header \<Rightarrow> PCA9685I2CConf_t option \<Rightarrow> uint16_t \<Rightarrow> uint16_t \<Rightarrow> bus \<Rightarrow> status \<times> bus" where
  "PCA9685_SetAllPWM h controllerConf onValue offValue b =
     (if controllerConf = None then (PCA9685LIB_ERROR, b)
      else if unat onValue > PCA9685_MAX_PWM_VALUE h
              \<or> unat offValue > PCA9685_MAX_PWM_VALUE h
      then (PCA9685LIB_ERROR, b)
      else
        case PCA9685WriteReg h controllerConf
               (of_nat (PCA9685_ALL_LED_ON_L_REG_ADDR h)) (low_byte onValue) b of
          (st1, b1) \<Rightarrow>
        if st1 \<noteq> PCA9685LIB_SUCCESS then (PCA9685LIB_ERROR, b1)
        else
        case PCA9685WriteReg h controllerConf
               (of_nat (PCA9685_ALL_LED_ON_H_REG_ADDR h)) (high_byte onValue) b1 of
          (st2, b2) \<Rightarrow>
        if st2 \<noteq> PCA9685LIB_SUCCESS then (PCA9685LIB_ERROR, b2)
        else
        case PCA9685WriteReg h controllerConf
               (of_nat (PCA9685_ALL_LED_OFF_L_REG_ADDR h)) (low_byte offValue) b2 of
          (st3, b3) \<Rightarrow>
        if st3 \<noteq> PCA9685LIB_SUCCESS then (PCA9685LIB_ERROR, b3)
        else
        case PCA9685WriteReg h controllerConf
               (of_nat (PCA9685_ALL_LED_OFF_H_REG_ADDR h)) (high_byte offValue) b3 of
          (st4, b4) \<Rightarrow>
        if st4 \<noteq> PCA9685LIB_SUCCESS then (PCA9685LIB_ERROR, b4)
        else (PCA9685LIB_SUCCESS, b4))"

text \<open>
  The read-modify-write operations on the mode registers. Each reads a register into the
  \<open>regValue\<close> member of a local union that starts as \<open>{0U}\<close>, assigns one bit-field,
  and writes \<open>regValue\<close> to the register address the source names in the write.
\<close>

definition PCA9685_Reset ::
  "header \<Rightarrow> PCA9685I2CConf_t option \<Rightarrow> bus \<Rightarrow> status \<times> bus" where
  "PCA9685_Reset h controllerConf b =
     (if controllerConf = None then (PCA9685LIB_ERROR, b)
      else
        case PCA9685ReadReg h controllerConf
               (of_nat (PCA9685_MODE1_REG_ADDR h)) (Some 0) b of
          (st1, cell, b1) \<Rightarrow>
        if st1 \<noteq> PCA9685LIB_SUCCESS then (PCA9685LIB_ERROR, b1)
        else
        let mode1RegRead = bitfield_assign (mode1_restart h) 1 (local_value cell 0) in
        case PCA9685WriteReg h controllerConf
               (of_nat (PCA9685_MODE1_REG_ADDR h)) mode1RegRead b1 of
          (st2, b2) \<Rightarrow>
        if st2 \<noteq> PCA9685LIB_SUCCESS then (PCA9685LIB_ERROR, b2)
        else (PCA9685LIB_SUCCESS, b2))"

definition PCA9685_Sleep ::
  "header \<Rightarrow> PCA9685I2CConf_t option \<Rightarrow> bus \<Rightarrow> status \<times> bus" where
  "PCA9685_Sleep h controllerConf b =
     (if controllerConf = None then (PCA9685LIB_ERROR, b)
      else
        case PCA9685ReadReg h controllerConf
               (of_nat (PCA9685_MODE1_REG_ADDR h)) (Some 0) b of
          (st1, cell, b1) \<Rightarrow>
        if st1 \<noteq> PCA9685LIB_SUCCESS then (PCA9685LIB_ERROR, b1)
        else
        let mode1RegRead = bitfield_assign (mode1_sleep h) 1 (local_value cell 0) in
        case PCA9685WriteReg h controllerConf
               (of_nat (PCA9685_MODE1_REG_ADDR h)) mode1RegRead b1 of
          (st2, b2) \<Rightarrow>
        if st2 \<noteq> PCA9685LIB_SUCCESS then (PCA9685LIB_ERROR, b2)
        else (PCA9685LIB_SUCCESS, b2))"

definition PCA9685_WakeUp ::
  "header \<Rightarrow> PCA9685I2CConf_t option \<Rightarrow> bus \<Rightarrow> status \<times> bus" where
  "PCA9685_WakeUp h controllerConf b =
     (if controllerConf = None then (PCA9685LIB_ERROR, b)
      else
        case PCA9685ReadReg h controllerConf
               (of_nat (PCA9685_MODE1_REG_ADDR h)) (Some 0) b of
          (st1, cell, b1) \<Rightarrow>
        if st1 \<noteq> PCA9685LIB_SUCCESS then (PCA9685LIB_ERROR, b1)
        else
        let mode1RegRead = bitfield_assign (mode1_sleep h) 0 (local_value cell 0) in
        case PCA9685WriteReg h controllerConf
               (of_nat (PCA9685_MODE1_REG_ADDR h)) mode1RegRead b1 of
          (st2, b2) \<Rightarrow>
        if st2 \<noteq> PCA9685LIB_SUCCESS then (PCA9685LIB_ERROR, b2)
        else (PCA9685LIB_SUCCESS, b2))"

definition PCA9685_EnableOutput ::
  "header \<Rightarrow> PCA9685I2CConf_t option \<Rightarrow> bus \<Rightarrow> status \<times> bus" where
  "PCA9685_EnableOutput h controllerConf b =
     (if controllerConf = None then (PCA9685LIB_ERROR, b)
      else
        case PCA9685ReadReg h controllerConf
               (of_nat (PCA9685_MODE2_REG_ADDR h)) (Some 0) b of
          (st1, cell, b1) \<Rightarrow>
        if st1 \<noteq> PCA9685LIB_SUCCESS then (PCA9685LIB_ERROR, b1)
        else
        let mode2RegRead = bitfield_assign (mode2_outne h) 0 (local_value cell 0) in
        case PCA9685WriteReg h controllerConf
               (of_nat (PCA9685_MODE1_REG_ADDR h)) mode2RegRead b1 of
          (st2, b2) \<Rightarrow>
        if st2 \<noteq> PCA9685LIB_SUCCESS then (PCA9685LIB_ERROR, b2)
        else (PCA9685LIB_SUCCESS, b2))"

definition PCA9685_DisableOutput ::
  "header \<Rightarrow> PCA9685I2CConf_t option \<Rightarrow> bus \<Rightarrow> status \<times> bus" where
  "PCA9685_DisableOutput h controllerConf b =
     (if controllerConf = None then (PCA9685LIB_ERROR, b)
      else
        case PCA9685ReadReg h controllerConf
               (of_nat (PCA9685_MODE2_REG_ADDR h)) (Some 0) b of
          (st1, cell, b1) \<Rightarrow>
        if st1 \<noteq> PCA9685LIB_SUCCESS then (PCA9685LIB_ERROR, b1)
        else
        let mode2RegRead = bitfield_assign (mode2_outne h) 3 (local_value cell 0) in
        case PCA9685WriteReg h controllerConf
               (of_nat (PCA9685_MODE1_REG_ADDR h)) mode2RegRead b1 of
          (st2, b2) \<Rightarrow>
        if st2 \<noteq> PCA9685LIB_SUCCESS then (PCA9685LIB_ERROR, b2)
        else (PCA9685LIB_SUCCESS, b2))"

definition PCA9685_SetOutputInversion ::
  "header \<Rightarrow> PCA9685I2CConf_t option \<Rightarrow> uint8_t \<Rightarrow> bus \<Rightarrow> status \<times> bus" where
  "PCA9685_SetOutputInversion h controllerConf invrt b =
     (if controllerConf = None then (PCA9685LIB_ERROR, b)
      else
        case PCA9685ReadReg h controllerConf
               (of_nat (PCA9685_MODE2_REG_ADDR h)) (Some 0) b of
          (st1, cell, b1) \<Rightarrow>
        if st1 \<noteq> PCA9685LIB_SUCCESS then (PCA9685LIB_ERROR, b1)
        else
        let mode2RegRead = bitfield_assign (mode2_invrt h) invrt (local_value cell 0) in
        case PCA9685WriteReg h controllerConf
               (of_nat (PCA9685_MODE1_REG_ADDR h)) mode2RegRead b1 of
          (st2, b2) \<Rightarrow>
        if st2 \<noteq> PCA9685LIB_SUCCESS then (PCA9685LIB_ERROR, b2)
        else (PCA9685LIB_SUCCESS, b2))"

section \<open>Notions used by the statements\<close>

text \<open>
  A register address that passes the guard of \<open>PCA9685WriteReg\<close> and
  \<open>PCA9685ReadReg\<close>.
\<close>

definition legal_reg :: "header \<Rightarrow> uint8_t \<Rightarrow> bool" where
  "legal_reg h reg \<longleftrightarrow>
     (unat reg \<le> PCA9685_LED15_OFF_H_REG_ADDR h \<or> PCA9685_ALL_LED_ON_L_REG_ADDR h \<le> unat reg)
       \<and> unat reg \<noteq> PCA9685_TEST_MODE_REG_ADDR h"

text \<open>The effect on a register file of a logged call that succeeded.\<close>

fun stored ::
  "i2c_call \<Rightarrow> (uint8_t \<Rightarrow> uint8_t \<Rightarrow> uint8_t) \<Rightarrow> (uint8_t \<Rightarrow> uint8_t \<Rightarrow> uint8_t)" where
  "stored (I2cWrite addr reg data) r = r(addr := (r addr)(reg := data))"
| "stored (I2cRead addr reg) r = r"
| "stored (I2cInit n) r = r"

text \<open>Concrete handles and buses at which the theorems are evaluated.\<close>

definition blank_conf :: PCA9685I2CConf_t where
  "blank_conf = \<lparr> i2cConf = 0, i2cAddr = 0 \<rparr>"

definition conf40 :: PCA9685I2CConf_t where
  "conf40 = \<lparr> i2cConf = 0, i2cAddr = 0x40 \<rparr>"

definition idle_bus :: bus where
  "idle_bus = \<lparr> regs = (\<lambda>addr reg. 0), calls = [], faulty = (\<lambda>n. False) \<rparr>"

definition mode_bus :: bus where
  "mode_bus =
     \<lparr> regs = (\<lambda>addr reg. if reg = 0x00 then 0x11 else if reg = 0x01 then 0x04 else 0),
       calls = [], faulty = (\<lambda>n. False) \<rparr>"

definition second_call_fails_bus :: bus where
  "second_call_fails_bus =
     \<lparr> regs = (\<lambda>addr reg. 0), calls = [], faulty = (\<lambda>n. n = 1) \<rparr>"

definition third_call_fails_bus :: bus where
  "third_call_fails_bus =
     \<lparr> regs = (\<lambda>addr reg. 5), calls = [], faulty = (\<lambda>n. n = 2) \<rparr>"

section \<open>Auxiliary facts\<close>

lemma limits_ok_pca9685: "limits_ok pca9685_header"
  by (simp add: limits_ok_def pca9685_header_def)

lemma regmap_ok_pca9685: "regmap_ok pca9685_header"
  by (simp add: regmap_ok_def pca9685_header_def)

lemma bitfields_ok_pca9685: "bitfields_ok pca9685_header"
  by (simp add: bitfields_ok_def pca9685_header_def)

text \<open>On a legal register, each primitive issues exactly one transport call.\<close>

lemma WriteReg_legal:
  assumes "legal_reg h reg"
  shows "PCA9685WriteReg h (Some c) reg data b =
     (if faulty b (length (calls b))
      then (PCA9685LIB_ERROR, b\<lparr>calls := calls b @ [I2cWrite (i2cAddr c) reg data]\<rparr>)
      else (PCA9685LIB_SUCCESS,
            b\<lparr>calls := calls b @ [I2cWrite (i2cAddr c) reg data],
              regs := (regs b)(i2cAddr c := (regs b (i2cAddr c))(reg := data))\<rparr>))"
  using assms by (auto simp add: legal_reg_def PCA9685WriteReg_def i2cWrite_def Let_def)

lemma ReadReg_legal:
  assumes "legal_reg h reg"
  shows "PCA9685ReadReg h (Some c) reg (Some d) b =
     (if faulty b (length (calls b))
      then (PCA9685LIB_ERROR, Some d, b\<lparr>calls := calls b @ [I2cRead (i2cAddr c) reg]\<rparr>)
      else (PCA9685LIB_SUCCESS, Some (regs b (i2cAddr c) reg),
            b\<lparr>calls := calls b @ [I2cRead (i2cAddr c) reg]\<rparr>))"
  using assms by (auto simp add: legal_reg_def PCA9685ReadReg_def i2cRead_def Let_def)

text \<open>The registers of a channel: no wrap-around, legal, pairwise different.\<close>

lemma unat_channel_reg:
  assumes "regmap_ok h" and "unat c \<le> 15" and "k \<le> 3"
  shows "unat (channel_reg (PCA9685_LED0_ON_L_REG_ADDR h + k) c)
           = PCA9685_LED0_ON_L_REG_ADDR h + k + unat c * 4"
proof -
  have "PCA9685_LED0_ON_L_REG_ADDR h + k + unat c * 4 < 256"
    using assms by (simp add: regmap_ok_def)
  then show ?thesis
    unfolding channel_reg_def unat_of_nat by simp
qed

lemma legal_channel_reg:
  assumes "regmap_ok h" and "unat c \<le> 15" and "k \<le> 3"
  shows "legal_reg h (channel_reg (PCA9685_LED0_ON_L_REG_ADDR h + k) c)"
  unfolding legal_reg_def unat_channel_reg [OF assms]
  using assms by (simp add: regmap_ok_def)

lemma channel_reg_neq:
  assumes "regmap_ok h" and "unat c \<le> 15" and "k \<le> 3" and "j \<le> 3" and "k \<noteq> j"
  shows "channel_reg (PCA9685_LED0_ON_L_REG_ADDR h + k) c
           \<noteq> channel_reg (PCA9685_LED0_ON_L_REG_ADDR h + j) c"
proof
  assume "channel_reg (PCA9685_LED0_ON_L_REG_ADDR h + k) c
           = channel_reg (PCA9685_LED0_ON_L_REG_ADDR h + j) c"
  then have "unat (channel_reg (PCA9685_LED0_ON_L_REG_ADDR h + k) c)
           = unat (channel_reg (PCA9685_LED0_ON_L_REG_ADDR h + j) c)" by simp
  then show False
    using assms by (simp add: unat_channel_reg)
qed

lemma channel_regs_legal:
  assumes "regmap_ok h" and "unat c \<le> 15"
  shows "legal_reg h (channel_reg (PCA9685_LED0_ON_L_REG_ADDR h) c)"
    and "legal_reg h (channel_reg (PCA9685_LED0_ON_H_REG_ADDR h) c)"
    and "legal_reg h (channel_reg (PCA9685_LED0_OFF_L_REG_ADDR h) c)"
    and "legal_reg h (channel_reg (PCA9685_LED0_OFF_H_REG_ADDR h) c)"
proof -
  have e: "PCA9685_LED0_ON_H_REG_ADDR h = PCA9685_LED0_ON_L_REG_ADDR h + 1"
    "PCA9685_LED0_OFF_L_REG_ADDR h = PCA9685_LED0_ON_L_REG_ADDR h + 2"
    "PCA9685_LED0_OFF_H_REG_ADDR h = PCA9685_LED0_ON_L_REG_ADDR h + 3"
    using assms(1) by (simp_all add: regmap_ok_def)
  show "legal_reg h (channel_reg (PCA9685_LED0_ON_L_REG_ADDR h) c)"
    using legal_channel_reg [OF assms, of 0] by simp
  show "legal_reg h (channel_reg (PCA9685_LED0_ON_H_REG_ADDR h) c)"
    unfolding e by (rule legal_channel_reg [OF assms]) simp
  show "legal_reg h (channel_reg (PCA9685_LED0_OFF_L_REG_ADDR h) c)"
    unfolding e by (rule legal_channel_reg [OF assms]) simp
  show "legal_reg h (channel_reg (PCA9685_LED0_OFF_H_REG_ADDR h) c)"
    unfolding e by (rule legal_channel_reg [OF assms]) simp
qed

lemma channel_regs_distinct:
  assumes "regmap_ok h" and "unat c \<le> 15"
  shows "distinct [channel_reg (PCA9685_LED0_ON_L_REG_ADDR h) c,
                   channel_reg (PCA9685_LED0_ON_H_REG_ADDR h) c,
                   channel_reg (PCA9685_LED0_OFF_L_REG_ADDR h) c,
                   channel_reg (PCA9685_LED0_OFF_H_REG_ADDR h) c]"
proof -
  have e: "PCA9685_LED0_ON_H_REG_ADDR h = PCA9685_LED0_ON_L_REG_ADDR h + 1"
    "PCA9685_LED0_OFF_L_REG_ADDR h = PCA9685_LED0_ON_L_REG_ADDR h + 2"
    "PCA9685_LED0_OFF_H_REG_ADDR h = PCA9685_LED0_ON_L_REG_ADDR h + 3"
    using assms(1) by (simp_all add: regmap_ok_def)
  have n: "\<And>k j. k \<le> 3 \<Longrightarrow> j \<le> 3 \<Longrightarrow> k \<noteq> j \<Longrightarrow>
      channel_reg (PCA9685_LED0_ON_L_REG_ADDR h + k) c
        \<noteq> channel_reg (PCA9685_LED0_ON_L_REG_ADDR h + j) c"
    by (rule channel_reg_neq [OF assms])
  show ?thesis
    unfolding e using n [of 0 1] n [of 0 2] n [of 0 3] n [of 1 2] n [of 1 3] n [of 2 3]
    by simp
qed

text \<open>The mode and prescaler registers are legal, and Mode1 is not Mode2.\<close>

lemma legal_of_nat:
  assumes "regmap_ok h"
  shows "legal_reg h (of_nat (PCA9685_MODE1_REG_ADDR h))"
    and "legal_reg h (of_nat (PCA9685_MODE2_REG_ADDR h))"
    and "legal_reg h (of_nat (PCA9685_PRE_SCALE_REG_ADDR h))"
  using assms by (simp_all add: legal_reg_def regmap_ok_def unat_of_nat)

lemma mode1_neq_mode2:
  assumes "regmap_ok h"
  shows "(of_nat (PCA9685_MODE1_REG_ADDR h) :: uint8_t) \<noteq> of_nat (PCA9685_MODE2_REG_ADDR h)"
proof
  assume "(of_nat (PCA9685_MODE1_REG_ADDR h) :: uint8_t) = of_nat (PCA9685_MODE2_REG_ADDR h)"
  then have "unat (of_nat (PCA9685_MODE1_REG_ADDR h) :: uint8_t)
           = unat (of_nat (PCA9685_MODE2_REG_ADDR h) :: uint8_t)" by simp
  then show False
    using assms by (simp add: regmap_ok_def unat_of_nat)
qed

text \<open>Splitting a 16-bit value into two bytes and merging them gives the value back.\<close>

lemma merge_split: "merge_bytes (high_byte v) (low_byte v) = v"
  unfolding merge_bytes_def high_byte_def low_byte_def
  by (rule bit_word_eqI) (auto simp add: bit_simps)

text \<open>Assigning 1 or 0 to a single-bit field sets or clears that bit, and no other.\<close>

lemma bitfield_assign_set:
  "bf_width f = 1 \<Longrightarrow> bitfield_assign f 1 m = set_bit (bf_offset f) m"
  unfolding bitfield_assign_def
  by (rule bit_word_eqI) (auto simp add: bit_simps)

lemma bitfield_assign_unset:
  "bf_width f = 1 \<Longrightarrow> bitfield_assign f 0 m = unset_bit (bf_offset f) m"
  unfolding bitfield_assign_def
  by (rule bit_word_eqI) (auto simp add: bit_simps)

section \<open>Output enable, disable and inversion\<close>

text \<open>
  C1. The spec asks that \<open>EnableOutput\<close>, \<open>DisableOutput\<close> and \<open>SetOutputInversion\<close>
  read the Mode2 register, change the \<open>outne\<close> (respectively \<open>invrt\<close>) bit-field and write
  the byte back to the Mode2 register. The source does read Mode2 and change the field,
  but each of the three writes the byte to the Mode1 register address: for every handle
  and every bus on which the two transport calls succeed, the call log grows by a read of
  Mode2 and a write to Mode1, the Mode1 register receives the modified Mode2 byte, the
  Mode2 register is not written, and the two addresses differ.
\<close>

theorem output_ops_write_mode1:
  assumes "regmap_ok h"
    and "\<not> faulty b (length (calls b))" and "\<not> faulty b (length (calls b) + 1)"
  shows
   "PCA9685_EnableOutput h (Some cf) b =
      (PCA9685LIB_SUCCESS,
       b\<lparr>calls := calls b @
            [I2cRead (i2cAddr cf) (of_nat (PCA9685_MODE2_REG_ADDR h)),
             I2cWrite (i2cAddr cf) (of_nat (PCA9685_MODE1_REG_ADDR h))
               (bitfield_assign (mode2_outne h) 0
                  (regs b (i2cAddr cf) (of_nat (PCA9685_MODE2_REG_ADDR h))))],
         regs := (regs b)(i2cAddr cf := (regs b (i2cAddr cf))
            (of_nat (PCA9685_MODE1_REG_ADDR h) :=
               bitfield_assign (mode2_outne h) 0
                 (regs b (i2cAddr cf) (of_nat (PCA9685_MODE2_REG_ADDR h)))))\<rparr>)
  \<and> PCA9685_DisableOutput h (Some cf) b =
      (PCA9685LIB_SUCCESS,
       b\<lparr>calls := calls b @
            [I2cRead (i2cAddr cf) (of_nat (PCA9685_MODE2_REG_ADDR h)),
             I2cWrite (i2cAddr cf) (of_nat (PCA9685_MODE1_REG_ADDR h))
               (bitfield_assign (mode2_outne h) 3
                  (regs b (i2cAddr cf) (of_nat (PCA9685_MODE2_REG_ADDR h))))],
         regs := (regs b)(i2cAddr cf := (regs b (i2cAddr cf))
            (of_nat (PCA9685_MODE1_REG_ADDR h) :=
               bitfield_assign (mode2_outne h) 3
                 (regs b (i2cAddr cf) (of_nat (PCA9685_MODE2_REG_ADDR h)))))\<rparr>)
  \<and> PCA9685_SetOutputInversion h (Some cf) invrt b =
      (PCA9685LIB_SUCCESS,
       b\<lparr>calls := calls b @
            [I2cRead (i2cAddr cf) (of_nat (PCA9685_MODE2_REG_ADDR h)),
             I2cWrite (i2cAddr cf) (of_nat (PCA9685_MODE1_REG_ADDR h))
               (bitfield_assign (mode2_invrt h) invrt
                  (regs b (i2cAddr cf) (of_nat (PCA9685_MODE2_REG_ADDR h))))],
         regs := (regs b)(i2cAddr cf := (regs b (i2cAddr cf))
            (of_nat (PCA9685_MODE1_REG_ADDR h) :=
               bitfield_assign (mode2_invrt h) invrt
                 (regs b (i2cAddr cf) (of_nat (PCA9685_MODE2_REG_ADDR h)))))\<rparr>)
  \<and> (of_nat (PCA9685_MODE1_REG_ADDR h) :: uint8_t) \<noteq> of_nat (PCA9685_MODE2_REG_ADDR h)"
proof -
  note lg = legal_of_nat(1,2) [OF assms(1)]
  have f: "\<not> faulty b (length (calls b))" "\<not> faulty b (Suc (length (calls b)))"
    using assms(2,3) by simp_all
  have e: "PCA9685_EnableOutput h (Some cf) b =
      (PCA9685LIB_SUCCESS,
       b\<lparr>calls := calls b @
            [I2cRead (i2cAddr cf) (of_nat (PCA9685_MODE2_REG_ADDR h)),
             I2cWrite (i2cAddr cf) (of_nat (PCA9685_MODE1_REG_ADDR h))
               (bitfield_assign (mode2_outne h) 0
                  (regs b (i2cAddr cf) (of_nat (PCA9685_MODE2_REG_ADDR h))))],
         regs := (regs b)(i2cAddr cf := (regs b (i2cAddr cf))
            (of_nat (PCA9685_MODE1_REG_ADDR h) :=
               bitfield_assign (mode2_outne h) 0
                 (regs b (i2cAddr cf) (of_nat (PCA9685_MODE2_REG_ADDR h)))))\<rparr>)"
    using f by (simp add: PCA9685_EnableOutput_def ReadReg_legal WriteReg_legal lg
        local_value_def Let_def)
  have d: "PCA9685_DisableOutput h (Some cf) b =
      (PCA9685LIB_SUCCESS,
       b\<lparr>calls := calls b @
            [I2cRead (i2cAddr cf) (of_nat (PCA9685_MODE2_REG_ADDR h)),
             I2cWrite (i2cAddr cf) (of_nat (PCA9685_MODE1_REG_ADDR h))
               (bitfield_assign (mode2_outne h) 3
                  (regs b (i2cAddr cf) (of_nat (PCA9685_MODE2_REG_ADDR h))))],
         regs := (regs b)(i2cAddr cf := (regs b (i2cAddr cf))
            (of_nat (PCA9685_MODE1_REG_ADDR h) :=
               bitfield_assign (mode2_outne h) 3
                 (regs b (i2cAddr cf) (of_nat (PCA9685_MODE2_REG_ADDR h)))))\<rparr>)"
    using f by (simp add: PCA9685_DisableOutput_def ReadReg_legal WriteReg_legal lg
        local_value_def Let_def)
  have i: "PCA9685_SetOutputInversion h (Some cf) invrt b =
      (PCA9685LIB_SUCCESS,
       b\<lparr>calls := calls b @
            [I2cRead (i2cAddr cf) (of_nat (PCA9685_MODE2_REG_ADDR h)),
             I2cWrite (i2cAddr cf) (of_nat (PCA9685_MODE1_REG_ADDR h))
               (bitfield_assign (mode2_invrt h) invrt
                  (regs b (i2cAddr cf) (of_nat (PCA9685_MODE2_REG_ADDR h))))],
         regs := (regs b)(i2cAddr cf := (regs b (i2cAddr cf))
            (of_nat (PCA9685_MODE1_REG_ADDR h) :=
               bitfield_assign (mode2_invrt h) invrt
                 (regs b (i2cAddr cf) (of_nat (PCA9685_MODE2_REG_ADDR h)))))\<rparr>)"
    using f by (simp add: PCA9685_SetOutputInversion_def ReadReg_legal WriteReg_legal lg
        local_value_def Let_def)
  from e d i mode1_neq_mode2 [OF assms(1)] show ?thesis by (intro conjI)
qed

text \<open>
  The three operations on a device at address 0x40 whose Mode1 register holds 0x11 and
  whose Mode2 register holds 0x04: each reads register 0x01 and writes register 0x00.
  After \<open>DisableOutput\<close> Mode1 holds 0x07 and Mode2 still holds 0x04, its \<open>outne\<close> bits
  clear.
\<close>

theorem output_ops_write_mode1_witness:
  "regmap_ok pca9685_header
 \<and> \<not> faulty mode_bus (length (calls mode_bus))
 \<and> \<not> faulty mode_bus (length (calls mode_bus) + 1)
 \<and> PCA9685_EnableOutput pca9685_header (Some conf40) mode_bus =
     (PCA9685LIB_SUCCESS,
      mode_bus\<lparr>calls := [I2cRead 0x40 0x01, I2cWrite 0x40 0x00 0x04],
               regs := (regs mode_bus)(0x40 := (regs mode_bus 0x40)(0x00 := 0x04))\<rparr>)
 \<and> PCA9685_DisableOutput pca9685_header (Some conf40) mode_bus =
     (PCA9685LIB_SUCCESS,
      mode_bus\<lparr>calls := [I2cRead 0x40 0x01, I2cWrite 0x40 0x00 0x07],
               regs := (regs mode_bus)(0x40 := (regs mode_bus 0x40)(0x00 := 0x07))\<rparr>)
 \<and> PCA9685_SetOutputInversion pca9685_header (Some conf40) 1 mode_bus =
     (PCA9685LIB_SUCCESS,
      mode_bus\<lparr>calls := [I2cRead 0x40 0x01, I2cWrite 0x40 0x00 0x14],
               regs := (regs mode_bus)(0x40 := (regs mode_bus 0x40)(0x00 := 0x14))\<rparr>)
 \<and> regs (snd (PCA9685_DisableOutput pca9685_header (Some conf40) mode_bus)) 0x40 0x01 = 0x04"
proof -
  have h1: "regmap_ok pca9685_header" by (rule regmap_ok_pca9685)
  have h2: "\<not> faulty mode_bus (length (calls mode_bus))" by (simp add: mode_bus_def)
  have h3: "\<not> faulty mode_bus (length (calls mode_bus) + 1)" by (simp add: mode_bus_def)
  have v: "bitfield_assign (mode2_outne pca9685_header) 0 4 = 4"
    "bitfield_assign (mode2_outne pca9685_header) 3 4 = 7"
    "bitfield_assign (mode2_invrt pca9685_header) 1 4 = 0x14"
    by (simp_all add: bitfield_assign_def pca9685_header_def mask_eq_exp_minus_1)
  have a: "PCA9685_MODE1_REG_ADDR pca9685_header = 0" "PCA9685_MODE2_REG_ADDR pca9685_header = 1"
    by (simp_all add: pca9685_header_def)
  have r: "regs mode_bus 0x40 1 = 4" "calls mode_bus = []" "i2cAddr conf40 = 0x40"
    by (simp_all add: mode_bus_def conf40_def)
  show ?thesis
    using h1 h2 h3
      output_ops_write_mode1 [OF h1 h2 h3, where cf = conf40 and invrt = 1]
    by (simp add: a r v)
qed

section \<open>The guard of the forbidden registers\<close>

text \<open>
  C2. For every register address \<open>r\<close> strictly between the LED15 OFF-high register
  address and the ALL-LED ON-low register address, and for \<open>r\<close> equal to the test-mode
  register address, the write primitive and the read primitive return the error result
  and leave the bus as it was, so that no transport call is issued; this holds for every
  handle, every data byte and every destination, which keeps its content.
\<close>

theorem forbidden_register_rejected:
  assumes "(PCA9685_LED15_OFF_H_REG_ADDR h < unat r \<and> unat r < PCA9685_ALL_LED_ON_L_REG_ADDR h)
            \<or> unat r = PCA9685_TEST_MODE_REG_ADDR h"
  shows "PCA9685WriteReg h controllerConf r d b = (PCA9685LIB_ERROR, b)
       \<and> PCA9685ReadReg h controllerConf r dst b = (PCA9685LIB_ERROR, dst, b)"
  using assms by (auto simp add: PCA9685WriteReg_def PCA9685ReadReg_def split: option.splits)

text \<open>Register 0x46, the first of the forbidden range, and the test-mode register 0xFF.\<close>

theorem forbidden_register_rejected_witness:
  "PCA9685_LED15_OFF_H_REG_ADDR pca9685_header < unat (0x46 :: uint8_t)
 \<and> unat (0x46 :: uint8_t) < PCA9685_ALL_LED_ON_L_REG_ADDR pca9685_header
 \<and> PCA9685WriteReg pca9685_header (Some conf40) 0x46 0xAB idle_bus = (PCA9685LIB_ERROR, idle_bus)
 \<and> PCA9685ReadReg pca9685_header (Some conf40) 0x46 (Some 0x5A) idle_bus
      = (PCA9685LIB_ERROR, Some 0x5A, idle_bus)
 \<and> unat (0xFF :: uint8_t) = PCA9685_TEST_MODE_REG_ADDR pca9685_header
 \<and> PCA9685WriteReg pca9685_header (Some conf40) 0xFF 0xAB idle_bus = (PCA9685LIB_ERROR, idle_bus)
 \<and> PCA9685ReadReg pca9685_header (Some conf40) 0xFF (Some 0x5A) idle_bus
      = (PCA9685LIB_ERROR, Some 0x5A, idle_bus)"
proof -
  have h1: "PCA9685_LED15_OFF_H_REG_ADDR pca9685_header < unat (0x46 :: uint8_t)
      \<and> unat (0x46 :: uint8_t) < PCA9685_ALL_LED_ON_L_REG_ADDR pca9685_header"
    by (simp add: pca9685_header_def)
  have h2: "unat (0xFF :: uint8_t) = PCA9685_TEST_MODE_REG_ADDR pca9685_header"
    by (simp add: pca9685_header_def)
  show ?thesis
    using h1 h2
      forbidden_register_rejected [OF disjI1 [OF h1], where controllerConf = "Some conf40"
        and d = "0xAB" and b = idle_bus and dst = "Some 0x5A"]
      forbidden_register_rejected [OF disjI2 [OF h2], where controllerConf = "Some conf40"
        and d = "0xAB" and b = idle_bus and dst = "Some 0x5A"]
    by simp
qed

section \<open>Channel PWM values\<close>

text \<open>
  C3. For every channel index \<open>c\<close> in [0,15] and all values \<open>on\<close>, \<open>off\<close> in [0,4095],
  on a bus whose transport calls all succeed (writes persist, a read returns the byte
  last written), \<open>SetPWM(c, on, off)\<close> succeeds and \<open>GetPWM(c)\<close> run on the resulting bus
  succeeds and delivers exactly \<open>on\<close> and \<open>off\<close>, whatever the destinations held before.
\<close>

theorem set_get_pwm_roundtrip:
  assumes "regmap_ok h" and "limits_ok h"
    and "unat c \<le> 15" and "unat on \<le> 4095" and "unat off \<le> 4095"
    and "\<forall>n. \<not> faulty b n"
  shows "\<exists>b1 b2.
           PCA9685_SetPWM h (Some cf) c on off b = (PCA9685LIB_SUCCESS, b1)
         \<and> PCA9685_GetPWM h (Some cf) c (Some x) (Some y) b1
             = (PCA9685LIB_SUCCESS, Some on, Some off, b2)"
proof -
  have lim: "PCA9685_MAX_PWM_CHANNELS h = 15" "PCA9685_MAX_PWM_VALUE h = 4095"
    using assms(2) by (simp_all add: limits_ok_def)
  note lg = channel_regs_legal [OF assms(1,3)]
  have d: "distinct [channel_reg (PCA9685_LED0_ON_L_REG_ADDR h) c,
                   channel_reg (PCA9685_LED0_ON_H_REG_ADDR h) c,
                   channel_reg (PCA9685_LED0_OFF_L_REG_ADDR h) c,
                   channel_reg (PCA9685_LED0_OFF_H_REG_ADDR h) c]"
    by (rule channel_regs_distinct [OF assms(1,3)])
  have s: "PCA9685_SetPWM h (Some cf) c on off b = (PCA9685LIB_SUCCESS,
      b\<lparr>calls := calls b @
           [I2cWrite (i2cAddr cf) (channel_reg (PCA9685_LED0_ON_L_REG_ADDR h) c) (low_byte on),
            I2cWrite (i2cAddr cf) (channel_reg (PCA9685_LED0_ON_H_REG_ADDR h) c) (high_byte on),
            I2cWrite (i2cAddr cf) (channel_reg (PCA9685_LED0_OFF_L_REG_ADDR h) c) (low_byte off),
            I2cWrite (i2cAddr cf) (channel_reg (PCA9685_LED0_OFF_H_REG_ADDR h) c) (high_byte off)],
        regs := (regs b)(i2cAddr cf := (regs b (i2cAddr cf))
           (channel_reg (PCA9685_LED0_ON_L_REG_ADDR h) c := low_byte on,
            channel_reg (PCA9685_LED0_ON_H_REG_ADDR h) c := high_byte on,
            channel_reg (PCA9685_LED0_OFF_L_REG_ADDR h) c := low_byte off,
            channel_reg (PCA9685_LED0_OFF_H_REG_ADDR h) c := high_byte off))\<rparr>)"
    using assms(3-6) by (simp add: PCA9685_SetPWM_def lim WriteReg_legal lg)
  show ?thesis
    unfolding s using assms(3,6) d
    by (simp add: PCA9685_GetPWM_def lim ReadReg_legal lg local_value_def merge_split)
qed

text \<open>Channel 3 with the values 100 and 3000, destinations holding 7 and 9 before.\<close>

theorem set_get_pwm_roundtrip_witness:
  "regmap_ok pca9685_header \<and> limits_ok pca9685_header
 \<and> unat (3 :: uint8_t) \<le> 15 \<and> unat (100 :: uint16_t) \<le> 4095 \<and> unat (3000 :: uint16_t) \<le> 4095
 \<and> (\<forall>n. \<not> faulty idle_bus n)
 \<and> fst (PCA9685_SetPWM pca9685_header (Some conf40) 3 100 3000 idle_bus) = PCA9685LIB_SUCCESS
 \<and> (\<exists>b2. PCA9685_GetPWM pca9685_header (Some conf40) 3 (Some 7) (Some 9)
         (snd (PCA9685_SetPWM pca9685_header (Some conf40) 3 100 3000 idle_bus))
       = (PCA9685LIB_SUCCESS, Some 100, Some 3000, b2))"
proof -
  have h1: "regmap_ok pca9685_header" by (rule regmap_ok_pca9685)
  have h2: "limits_ok pca9685_header" by (rule limits_ok_pca9685)
  have h3: "unat (3 :: uint8_t) \<le> 15" by simp
  have h4: "unat (100 :: uint16_t) \<le> 4095" by simp
  have h5: "unat (3000 :: uint16_t) \<le> 4095" by simp
  have h6: "\<forall>n. \<not> faulty idle_bus n" by (simp add: idle_bus_def)
  from set_get_pwm_roundtrip [OF h1 h2 h3 h4 h5 h6, where cf = conf40 and x = 7 and y = 9]
  obtain b1 b2 where
    "PCA9685_SetPWM pca9685_header (Some conf40) 3 100 3000 idle_bus = (PCA9685LIB_SUCCESS, b1)"
    "PCA9685_GetPWM pca9685_header (Some conf40) 3 (Some 7) (Some 9) b1
       = (PCA9685LIB_SUCCESS, Some 100, Some 3000, b2)"
    by blast
  with h1 h2 h3 h4 h5 h6 show ?thesis by simp
qed

section \<open>Read-modify-write of Mode1\<close>

text \<open>
  C4. For every byte \<open>m\<close> that the Mode1 register holds before the call, on a bus where
  the read and the write succeed: \<open>Sleep\<close> reads Mode1 and writes back to Mode1 exactly
  \<open>m\<close> with the sleep bit set, \<open>WakeUp\<close> writes back exactly \<open>m\<close> with the sleep bit
  cleared, and \<open>Reset\<close> writes back exactly \<open>m\<close> with the restart bit set; every other bit
  of the byte written is the bit of \<open>m\<close>, and no other register changes.
\<close>

theorem mode1_read_modify_write:
  assumes "regmap_ok h" and "bitfields_ok h"
    and "\<not> faulty b (length (calls b))" and "\<not> faulty b (length (calls b) + 1)"
  shows
   "PCA9685_Sleep h (Some cf) b =
      (PCA9685LIB_SUCCESS,
       b\<lparr>calls := calls b @
            [I2cRead (i2cAddr cf) (of_nat (PCA9685_MODE1_REG_ADDR h)),
             I2cWrite (i2cAddr cf) (of_nat (PCA9685_MODE1_REG_ADDR h))
               (set_bit (bf_offset (mode1_sleep h))
                  (regs b (i2cAddr cf) (of_nat (PCA9685_MODE1_REG_ADDR h))))],
         regs := (regs b)(i2cAddr cf := (regs b (i2cAddr cf))
            (of_nat (PCA9685_MODE1_REG_ADDR h) :=
               set_bit (bf_offset (mode1_sleep h))
                 (regs b (i2cAddr cf) (of_nat (PCA9685_MODE1_REG_ADDR h)))))\<rparr>)
  \<and> PCA9685_WakeUp h (Some cf) b =
      (PCA9685LIB_SUCCESS,
       b\<lparr>calls := calls b @
            [I2cRead (i2cAddr cf) (of_nat (PCA9685_MODE1_REG_ADDR h)),
             I2cWrite (i2cAddr cf) (of_nat (PCA9685_MODE1_REG_ADDR h))
               (unset_bit (bf_offset (mode1_sleep h))
                  (regs b (i2cAddr cf) (of_nat (PCA9685_MODE1_REG_ADDR h))))],
         regs := (regs b)(i2cAddr cf := (regs b (i2cAddr cf))
            (of_nat (PCA9685_MODE1_REG_ADDR h) :=
               unset_bit (bf_offset (mode1_sleep h))
                 (regs b (i2cAddr cf) (of_nat (PCA9685_MODE1_REG_ADDR h)))))\<rparr>)
  \<and> PCA9685_Reset h (Some cf) b =
      (PCA9685LIB_SUCCESS,
       b\<lparr>calls := calls b @
            [I2cRead (i2cAddr cf) (of_nat (PCA9685_MODE1_REG_ADDR h)),
             I2cWrite (i2cAddr cf) (of_nat (PCA9685_MODE1_REG_ADDR h))
               (set_bit (bf_offset (mode1_restart h))
                  (regs b (i2cAddr cf) (of_nat (PCA9685_MODE1_REG_ADDR h))))],
         regs := (regs b)(i2cAddr cf := (regs b (i2cAddr cf))
            (of_nat (PCA9685_MODE1_REG_ADDR h) :=
               set_bit (bf_offset (mode1_restart h))
                 (regs b (i2cAddr cf) (of_nat (PCA9685_MODE1_REG_ADDR h)))))\<rparr>)"
proof -
  have w: "bf_width (mode1_sleep h) = 1" "bf_width (mode1_restart h) = 1"
    using assms(2) by (simp_all add: bitfields_ok_def)
  note lg = legal_of_nat(1) [OF assms(1)]
  have f: "\<not> faulty b (length (calls b))" "\<not> faulty b (Suc (length (calls b)))"
    using assms(3,4) by simp_all
  have "PCA9685_Sleep h (Some cf) b = (PCA9685LIB_SUCCESS,
       b\<lparr>calls := calls b @
            [I2cRead (i2cAddr cf) (of_nat (PCA9685_MODE1_REG_ADDR h)),
             I2cWrite (i2cAddr cf) (of_nat (PCA9685_MODE1_REG_ADDR h))
               (set_bit (bf_offset (mode1_sleep h))
                  (regs b (i2cAddr cf) (of_nat (PCA9685_MODE1_REG_ADDR h))))],
         regs := (regs b)(i2cAddr cf := (regs b (i2cAddr cf))
            (of_nat (PCA9685_MODE1_REG_ADDR h) :=
               set_bit (bf_offset (mode1_sleep h))
                 (regs b (i2cAddr cf) (of_nat (PCA9685_MODE1_REG_ADDR h)))))\<rparr>)"
    using f by (simp add: PCA9685_Sleep_def ReadReg_legal WriteReg_legal lg local_value_def
        Let_def bitfield_assign_set w)
  moreover have "PCA9685_WakeUp h (Some cf) b = (PCA9685LIB_SUCCESS,
       b\<lparr>calls := calls b @
            [I2cRead (i2cAddr cf) (of_nat (PCA9685_MODE1_REG_ADDR h)),
             I2cWrite (i2cAddr cf) (of_nat (PCA9685_MODE1_REG_ADDR h))
               (unset_bit (bf_offset (mode1_sleep h))
                  (regs b (i2cAddr cf) (of_nat (PCA9685_MODE1_REG_ADDR h))))],
         regs := (regs b)(i2cAddr cf := (regs b (i2cAddr cf))
            (of_nat (PCA9685_MODE1_REG_ADDR h) :=
               unset_bit (bf_offset (mode1_sleep h))
                 (regs b (i2cAddr cf) (of_nat (PCA9685_MODE1_REG_ADDR h)))))\<rparr>)"
    using f by (simp add: PCA9685_WakeUp_def ReadReg_legal WriteReg_legal lg local_value_def
        Let_def bitfield_assign_unset w)
  moreover have "PCA9685_Reset h (Some cf) b = (PCA9685LIB_SUCCESS,
       b\<lparr>calls := calls b @
            [I2cRead (i2cAddr cf) (of_nat (PCA9685_MODE1_REG_ADDR h)),
             I2cWrite (i2cAddr cf) (of_nat (PCA9685_MODE1_REG_ADDR h))
               (set_bit (bf_offset (mode1_restart h))
                  (regs b (i2cAddr cf) (of_nat (PCA9685_MODE1_REG_ADDR h))))],
         regs := (regs b)(i2cAddr cf := (regs b (i2cAddr cf))
            (of_nat (PCA9685_MODE1_REG_ADDR h) :=
               set_bit (bf_offset (mode1_restart h))
                 (regs b (i2cAddr cf) (of_nat (PCA9685_MODE1_REG_ADDR h)))))\<rparr>)"
    using f by (simp add: PCA9685_Reset_def ReadReg_legal WriteReg_legal lg local_value_def
        Let_def bitfield_assign_set w)
  ultimately show ?thesis by simp
qed

text \<open>
  A device whose Mode1 register holds 0x11 (sleep is bit 4, restart bit 7): \<open>Sleep\<close>
  writes 0x11, \<open>WakeUp\<close> writes 0x01, \<open>Reset\<close> writes 0x91.
\<close>

theorem mode1_read_modify_write_witness:
  "regmap_ok pca9685_header \<and> bitfields_ok pca9685_header
 \<and> \<not> faulty mode_bus (length (calls mode_bus))
 \<and> \<not> faulty mode_bus (length (calls mode_bus) + 1)
 \<and> regs mode_bus 0x40 0x00 = 0x11
 \<and> PCA9685_Sleep pca9685_header (Some conf40) mode_bus =
     (PCA9685LIB_SUCCESS,
      mode_bus\<lparr>calls := [I2cRead 0x40 0x00, I2cWrite 0x40 0x00 0x11],
               regs := (regs mode_bus)(0x40 := (regs mode_bus 0x40)(0x00 := 0x11))\<rparr>)
 \<and> PCA9685_WakeUp pca9685_header (Some conf40) mode_bus =
     (PCA9685LIB_SUCCESS,
      mode_bus\<lparr>calls := [I2cRead 0x40 0x00, I2cWrite 0x40 0x00 0x01],
               regs := (regs mode_bus)(0x40 := (regs mode_bus 0x40)(0x00 := 0x01))\<rparr>)
 \<and> PCA9685_Reset pca9685_header (Some conf40) mode_bus =
     (PCA9685LIB_SUCCESS,
      mode_bus\<lparr>calls := [I2cRead 0x40 0x00, I2cWrite 0x40 0x00 0x91],
               regs := (regs mode_bus)(0x40 := (regs mode_bus 0x40)(0x00 := 0x91))\<rparr>)"
proof -
  have h1: "regmap_ok pca9685_header" by (rule regmap_ok_pca9685)
  have h2: "bitfields_ok pca9685_header" by (rule bitfields_ok_pca9685)
  have h3: "\<not> faulty mode_bus (length (calls mode_bus))" by (simp add: mode_bus_def)
  have h4: "\<not> faulty mode_bus (length (calls mode_bus) + 1)" by (simp add: mode_bus_def)
  have v: "set_bit (bf_offset (mode1_sleep pca9685_header)) (0x11 :: uint8_t) = 0x11"
    "unset_bit (bf_offset (mode1_sleep pca9685_header)) (0x11 :: uint8_t) = 0x01"
    "set_bit (bf_offset (mode1_restart pca9685_header)) (0x11 :: uint8_t) = 0x91"
    by (simp_all add: pca9685_header_def set_bit_eq_or unset_bit_eq_and_not)
  have a: "PCA9685_MODE1_REG_ADDR pca9685_header = 0"
    by (simp add: pca9685_header_def)
  have r: "regs mode_bus 0x40 0 = 0x11" "calls mode_bus = []" "i2cAddr conf40 = 0x40"
    by (simp_all add: mode_bus_def conf40_def)
  show ?thesis
    using h1 h2 h3 h4 mode1_read_modify_write [OF h1 h2 h3 h4, where cf = conf40]
    by (simp add: a r v)
qed

section \<open>The prescaler\<close>

text \<open>
  C5. For every prescale input \<open>p\<close>, on a bus where the transport writes succeed,
  \<open>SetPrescaler\<close> succeeds (a low \<open>p\<close> is no error) and issues one write to the prescaler
  register, of the byte 3 when \<open>p < 3\<close> and of \<open>p\<close> itself when \<open>p \<ge> 3\<close>, which the
  register then holds; a second call with the same \<open>p\<close> writes the same byte and leaves
  every register as the first call left it.
\<close>

theorem set_prescaler_clamps:
  assumes "regmap_ok h" and "limits_ok h"
    and "\<not> faulty b (length (calls b))" and "\<not> faulty b (length (calls b) + 1)"
  shows "\<exists>b1 b2.
      PCA9685_SetPrescaler h (Some cf) p b = (PCA9685LIB_SUCCESS, b1)
    \<and> calls b1 = calls b @
        [I2cWrite (i2cAddr cf) (of_nat (PCA9685_PRE_SCALE_REG_ADDR h)) (if p < 3 then 3 else p)]
    \<and> regs b1 (i2cAddr cf) (of_nat (PCA9685_PRE_SCALE_REG_ADDR h)) = (if p < 3 then 3 else p)
    \<and> PCA9685_SetPrescaler h (Some cf) p b1 = (PCA9685LIB_SUCCESS, b2)
    \<and> calls b2 = calls b1 @
        [I2cWrite (i2cAddr cf) (of_nat (PCA9685_PRE_SCALE_REG_ADDR h)) (if p < 3 then 3 else p)]
    \<and> regs b2 = regs b1"
proof -
  have m: "PCA9685_MIN_PRESCALER h = 3"
    using assms(2) by (simp add: limits_ok_def)
  note lg = legal_of_nat(3) [OF assms(1)]
  have f: "\<not> faulty b (length (calls b))" "\<not> faulty b (Suc (length (calls b)))"
    using assms(3,4) by simp_all
  have lt: "(unat p < 3) = (p < 3)"
    by (simp add: word_less_nat_alt)
  show ?thesis
    using f by (simp add: PCA9685_SetPrescaler_def m lt WriteReg_legal lg Let_def)
qed

text \<open>The input 1 is stored as 3, twice.\<close>

theorem set_prescaler_clamps_witness:
  "regmap_ok pca9685_header \<and> limits_ok pca9685_header
 \<and> \<not> faulty idle_bus (length (calls idle_bus))
 \<and> \<not> faulty idle_bus (length (calls idle_bus) + 1)
 \<and> fst (PCA9685_SetPrescaler pca9685_header (Some conf40) 1 idle_bus) = PCA9685LIB_SUCCESS
 \<and> calls (snd (PCA9685_SetPrescaler pca9685_header (Some conf40) 1 idle_bus))
      = [I2cWrite 0x40 0xFE 3]
 \<and> regs (snd (PCA9685_SetPrescaler pca9685_header (Some conf40) 1 idle_bus)) 0x40 0xFE = 3
 \<and> calls (snd (PCA9685_SetPrescaler pca9685_header (Some conf40) 1
      (snd (PCA9685_SetPrescaler pca9685_header (Some conf40) 1 idle_bus))))
      = [I2cWrite 0x40 0xFE 3, I2cWrite 0x40 0xFE 3]
 \<and> regs (snd (PCA9685_SetPrescaler pca9685_header (Some conf40) 1
      (snd (PCA9685_SetPrescaler pca9685_header (Some conf40) 1 idle_bus)))) 0x40 0xFE = 3"
proof -
  have h1: "regmap_ok pca9685_header" by (rule regmap_ok_pca9685)
  have h2: "limits_ok pca9685_header" by (rule limits_ok_pca9685)
  have h3: "\<not> faulty idle_bus (length (calls idle_bus))" by (simp add: idle_bus_def)
  have h4: "\<not> faulty idle_bus (length (calls idle_bus) + 1)" by (simp add: idle_bus_def)
  have a: "PCA9685_PRE_SCALE_REG_ADDR pca9685_header = 0xFE" "calls idle_bus = []"
    "i2cAddr conf40 = 0x40"
    by (simp_all add: pca9685_header_def idle_bus_def conf40_def)
  from set_prescaler_clamps [OF h1 h2 h3 h4, where cf = conf40 and p = 1]
  obtain b1 b2 where
    "PCA9685_SetPrescaler pca9685_header (Some conf40) 1 idle_bus = (PCA9685LIB_SUCCESS, b1)"
    "calls b1 = [I2cWrite 0x40 0xFE 3]"
    "regs b1 0x40 0xFE = 3"
    "PCA9685_SetPrescaler pca9685_header (Some conf40) 1 b1 = (PCA9685LIB_SUCCESS, b2)"
    "calls b2 = calls b1 @ [I2cWrite 0x40 0xFE 3]"
    "regs b2 = regs b1"
    by (auto simp add: a)
  with h1 h2 h3 h4 show ?thesis by simp
qed

section \<open>Failures and rejected arguments of the PWM operations\<close>

text \<open>
  C6. In \<open>SetPWM\<close> with arguments in range, if the transport write number \<open>k\<close> of the four
  (counted from 0) is the first that fails, the call returns the error result, the
  writes issued are exactly the first \<open>k + 1\<close> of the sequence ON-low, ON-high, OFF-low,
  OFF-high, and the register file holds the effect of the \<open>k\<close> writes that succeeded:
  nothing is rolled back. For \<open>k = 1\<close>, the second write: the first register write stays
  applied and the third and fourth are never issued.
\<close>

theorem set_pwm_no_rollback:
  assumes "regmap_ok h" and "limits_ok h"
    and "unat c \<le> 15" and "unat on \<le> 4095" and "unat off \<le> 4095"
    and "k < 4"
    and "\<forall>j<k. \<not> faulty b (length (calls b) + j)"
    and "faulty b (length (calls b) + k)"
  shows "\<exists>b'.
      PCA9685_SetPWM h (Some cf) c on off b = (PCA9685LIB_ERROR, b')
    \<and> calls b' = calls b @ take (Suc k)
         [I2cWrite (i2cAddr cf) (channel_reg (PCA9685_LED0_ON_L_REG_ADDR h) c) (low_byte on),
          I2cWrite (i2cAddr cf) (channel_reg (PCA9685_LED0_ON_H_REG_ADDR h) c) (high_byte on),
          I2cWrite (i2cAddr cf) (channel_reg (PCA9685_LED0_OFF_L_REG_ADDR h) c) (low_byte off),
          I2cWrite (i2cAddr cf) (channel_reg (PCA9685_LED0_OFF_H_REG_ADDR h) c) (high_byte off)]
    \<and> regs b' = fold stored (take k
         [I2cWrite (i2cAddr cf) (channel_reg (PCA9685_LED0_ON_L_REG_ADDR h) c) (low_byte on),
          I2cWrite (i2cAddr cf) (channel_reg (PCA9685_LED0_ON_H_REG_ADDR h) c) (high_byte on),
          I2cWrite (i2cAddr cf) (channel_reg (PCA9685_LED0_OFF_L_REG_ADDR h) c) (low_byte off),
          I2cWrite (i2cAddr cf) (channel_reg (PCA9685_LED0_OFF_H_REG_ADDR h) c) (high_byte off)])
         (regs b)"
proof -
  have lim: "PCA9685_MAX_PWM_CHANNELS h = 15" "PCA9685_MAX_PWM_VALUE h = 4095"
    using assms(2) by (simp_all add: limits_ok_def)
  note lg = channel_regs_legal [OF assms(1,3)]
  have nf: "\<not> faulty b (length (calls b) + j)" if "j < k" for j
    using assms(7) that by simp
  from assms(6) consider "k = 0" | "k = 1" | "k = 2" | "k = 3" by linarith
  then show ?thesis
  proof cases
    case 1
    with assms(3-5,8) show ?thesis
      by (simp add: PCA9685_SetPWM_def lim WriteReg_legal lg)
  next
    case 2
    with nf [of 0] assms(8)
    have "\<not> faulty b (length (calls b))" "faulty b (Suc (length (calls b)))"
      by simp_all
    with 2 assms(3-5) show ?thesis
      by (simp add: PCA9685_SetPWM_def lim WriteReg_legal lg)
  next
    case 3
    with nf [of 0] nf [of 1] assms(8)
    have "\<not> faulty b (length (calls b))" "\<not> faulty b (Suc (length (calls b)))"
       "faulty b (Suc (Suc (length (calls b))))"
      by simp_all
    with 3 assms(3-5) show ?thesis
      by (simp add: PCA9685_SetPWM_def lim WriteReg_legal lg numeral_2_eq_2)
  next
    case 4
    with nf [of 0] nf [of 1] nf [of 2] assms(8)
    have "\<not> faulty b (length (calls b))" "\<not> faulty b (Suc (length (calls b)))"
       "\<not> faulty b (Suc (Suc (length (calls b))))"
       "faulty b (Suc (Suc (Suc (length (calls b)))))"
      by (simp_all add: numeral_3_eq_3)
    with 4 assms(3-5) show ?thesis
      by (simp add: PCA9685_SetPWM_def lim WriteReg_legal lg numeral_3_eq_3)
  qed
qed

text \<open>
  Channel 2, values 0x123 and 0x456, on a bus whose second call fails: the call returns
  the error, two writes were issued, and register 0x0E holds 0x23.
\<close>

theorem set_pwm_no_rollback_witness:
  "regmap_ok pca9685_header \<and> limits_ok pca9685_header
 \<and> unat (2 :: uint8_t) \<le> 15 \<and> unat (0x123 :: uint16_t) \<le> 4095 \<and> unat (0x456 :: uint16_t) \<le> 4095
 \<and> (1 :: nat) < 4
 \<and> \<not> faulty second_call_fails_bus (length (calls second_call_fails_bus) + 0)
 \<and> faulty second_call_fails_bus (length (calls second_call_fails_bus) + 1)
 \<and> fst (PCA9685_SetPWM pca9685_header (Some conf40) 2 0x123 0x456 second_call_fails_bus)
      = PCA9685LIB_ERROR
 \<and> calls (snd (PCA9685_SetPWM pca9685_header (Some conf40) 2 0x123 0x456 second_call_fails_bus))
      = [I2cWrite 0x40 0x0E 0x23, I2cWrite 0x40 0x0F 0x01]
 \<and> regs (snd (PCA9685_SetPWM pca9685_header (Some conf40) 2 0x123 0x456 second_call_fails_bus))
      = (regs second_call_fails_bus)(0x40 := (regs second_call_fails_bus 0x40)(0x0E := 0x23))"
proof -
  have h1: "regmap_ok pca9685_header" by (rule regmap_ok_pca9685)
  have h2: "limits_ok pca9685_header" by (rule limits_ok_pca9685)
  have h3: "unat (2 :: uint8_t) \<le> 15" by simp
  have h4: "unat (0x123 :: uint16_t) \<le> 4095" by simp
  have h5: "unat (0x456 :: uint16_t) \<le> 4095" by simp
  have h6: "(1 :: nat) < 4" by simp
  have h7: "\<forall>j<1. \<not> faulty second_call_fails_bus (length (calls second_call_fails_bus) + j)"
    by (simp add: second_call_fails_bus_def)
  have h8: "faulty second_call_fails_bus (length (calls second_call_fails_bus) + 1)"
    by (simp add: second_call_fails_bus_def)
  have a: "channel_reg (PCA9685_LED0_ON_L_REG_ADDR pca9685_header) 2 = 0x0E"
    "channel_reg (PCA9685_LED0_ON_H_REG_ADDR pca9685_header) 2 = 0x0F"
    "low_byte 0x123 = 0x23" "high_byte 0x123 = 0x01"
    "calls second_call_fails_bus = []" "i2cAddr conf40 = 0x40"
    by (simp_all add: channel_reg_def pca9685_header_def low_byte_def high_byte_def
        second_call_fails_bus_def conf40_def)
  from set_pwm_no_rollback [OF h1 h2 h3 h4 h5 h6 h7 h8, where cf = conf40]
  obtain b' where
    "PCA9685_SetPWM pca9685_header (Some conf40) 2 0x123 0x456 second_call_fails_bus
       = (PCA9685LIB_ERROR, b')"
    "calls b' = [I2cWrite 0x40 0x0E 0x23, I2cWrite 0x40 0x0F 0x01]"
    "regs b' = (regs second_call_fails_bus)(0x40 := (regs second_call_fails_bus 0x40)(0x0E := 0x23))"
    by (auto simp add: a)
  with h1 h2 h3 h4 h5 h6 h8 show ?thesis by (simp add: second_call_fails_bus_def)
qed

text \<open>
  C7. On a bus whose transport calls all succeed, \<open>Init\<close> with device address 0x40 and
  bus channel 0 succeeds and stores the address in the handle; \<open>SetPWM(0, 0, 2048)\<close> on
  that handle then succeeds and issues exactly four writes to the device at 0x40, in the
  order ON-low, ON-high, OFF-low, OFF-high of channel 0, with the bytes 0x00, 0x00, 0x00,
  0x08; and \<open>GetPWM(0)\<close> after it succeeds and delivers 0 and 2048.
\<close>

theorem init_set_get_scenario:
  assumes "regmap_ok h" and "limits_ok h" and "\<forall>n. \<not> faulty b n"
  shows "\<exists>cf b1 b2 b3.
      PCA9685_Init (Some cf0) 0x40 0 b = (PCA9685LIB_SUCCESS, Some cf, b1)
    \<and> i2cAddr cf = 0x40
    \<and> PCA9685_SetPWM h (Some cf) 0 0 2048 b1 = (PCA9685LIB_SUCCESS, b2)
    \<and> calls b2 = calls b1 @
        [I2cWrite 0x40 (of_nat (PCA9685_LED0_ON_L_REG_ADDR h)) 0x00,
         I2cWrite 0x40 (of_nat (PCA9685_LED0_ON_H_REG_ADDR h)) 0x00,
         I2cWrite 0x40 (of_nat (PCA9685_LED0_OFF_L_REG_ADDR h)) 0x00,
         I2cWrite 0x40 (of_nat (PCA9685_LED0_OFF_H_REG_ADDR h)) 0x08]
    \<and> PCA9685_GetPWM h (Some cf) 0 (Some x) (Some y) b2
        = (PCA9685LIB_SUCCESS, Some 0, Some 2048, b3)"
proof -
  have lim: "PCA9685_MAX_PWM_CHANNELS h = 15" "PCA9685_MAX_PWM_VALUE h = 4095"
    using assms(2) by (simp_all add: limits_ok_def)
  have c0: "unat (0 :: uint8_t) \<le> 15" by simp
  note lg = channel_regs_legal [OF assms(1) c0]
  have d: "distinct [channel_reg (PCA9685_LED0_ON_L_REG_ADDR h) 0,
                   channel_reg (PCA9685_LED0_ON_H_REG_ADDR h) 0,
                   channel_reg (PCA9685_LED0_OFF_L_REG_ADDR h) 0,
                   channel_reg (PCA9685_LED0_OFF_H_REG_ADDR h) 0]"
    by (rule channel_regs_distinct [OF assms(1) c0])
  have z: "channel_reg base 0 = of_nat base" for base
    by (simp add: channel_reg_def)
  have by1: "low_byte 0 = 0" "high_byte 0 = 0" "low_byte 2048 = 0" "high_byte 2048 = 8"
    by (simp_all add: low_byte_def high_byte_def)
  have mg: "merge_bytes 0 0 = 0" "merge_bytes 8 0 = 2048"
    by (simp_all add: merge_bytes_def)
  have i: "PCA9685_Init (Some cf0) 0x40 0 b = (PCA9685LIB_SUCCESS,
      Some (cf0\<lparr>i2cConf := 0, i2cAddr := 0x40\<rparr>), b\<lparr>calls := calls b @ [I2cInit 0]\<rparr>)"
    using assms(3) by (simp add: PCA9685_Init_def i2cInit_def Let_def)
  have s: "PCA9685_SetPWM h (Some (cf0\<lparr>i2cConf := 0, i2cAddr := 0x40\<rparr>)) 0 0 2048
             (b\<lparr>calls := calls b @ [I2cInit 0]\<rparr>) = (PCA9685LIB_SUCCESS,
      b\<lparr>calls := calls b @ [I2cInit 0,
            I2cWrite 0x40 (channel_reg (PCA9685_LED0_ON_L_REG_ADDR h) 0) 0,
            I2cWrite 0x40 (channel_reg (PCA9685_LED0_ON_H_REG_ADDR h) 0) 0,
            I2cWrite 0x40 (channel_reg (PCA9685_LED0_OFF_L_REG_ADDR h) 0) 0,
            I2cWrite 0x40 (channel_reg (PCA9685_LED0_OFF_H_REG_ADDR h) 0) 8],
        regs := (regs b)(0x40 := (regs b 0x40)
           (channel_reg (PCA9685_LED0_ON_L_REG_ADDR h) 0 := 0,
            channel_reg (PCA9685_LED0_ON_H_REG_ADDR h) 0 := 0,
            channel_reg (PCA9685_LED0_OFF_L_REG_ADDR h) 0 := 0,
            channel_reg (PCA9685_LED0_OFF_H_REG_ADDR h) 0 := 8))\<rparr>)"
    using assms(3) by (simp add: PCA9685_SetPWM_def lim WriteReg_legal lg by1)
  have g: "PCA9685_GetPWM h (Some (cf0\<lparr>i2cConf := 0, i2cAddr := 0x40\<rparr>)) 0 (Some x) (Some y)
      (b\<lparr>calls := calls b @ [I2cInit 0,
            I2cWrite 0x40 (channel_reg (PCA9685_LED0_ON_L_REG_ADDR h) 0) 0,
            I2cWrite 0x40 (channel_reg (PCA9685_LED0_ON_H_REG_ADDR h) 0) 0,
            I2cWrite 0x40 (channel_reg (PCA9685_LED0_OFF_L_REG_ADDR h) 0) 0,
            I2cWrite 0x40 (channel_reg (PCA9685_LED0_OFF_H_REG_ADDR h) 0) 8],
        regs := (regs b)(0x40 := (regs b 0x40)
           (channel_reg (PCA9685_LED0_ON_L_REG_ADDR h) 0 := 0,
            channel_reg (PCA9685_LED0_ON_H_REG_ADDR h) 0 := 0,
            channel_reg (PCA9685_LED0_OFF_L_REG_ADDR h) 0 := 0,
            channel_reg (PCA9685_LED0_OFF_H_REG_ADDR h) 0 := 8))\<rparr>)
      = (PCA9685LIB_SUCCESS, Some 0, Some 2048,
         b\<lparr>calls := calls b @ [I2cInit 0,
            I2cWrite 0x40 (channel_reg (PCA9685_LED0_ON_L_REG_ADDR h) 0) 0,
            I2cWrite 0x40 (channel_reg (PCA9685_LED0_ON_H_REG_ADDR h) 0) 0,
            I2cWrite 0x40 (channel_reg (PCA9685_LED0_OFF_L_REG_ADDR h) 0) 0,
            I2cWrite 0x40 (channel_reg (PCA9685_LED0_OFF_H_REG_ADDR h) 0) 8,
            I2cRead 0x40 (channel_reg (PCA9685_LED0_ON_L_REG_ADDR h) 0),
            I2cRead 0x40 (channel_reg (PCA9685_LED0_ON_H_REG_ADDR h) 0),
            I2cRead 0x40 (channel_reg (PCA9685_LED0_OFF_L_REG_ADDR h) 0),
            I2cRead 0x40 (channel_reg (PCA9685_LED0_OFF_H_REG_ADDR h) 0)],
        regs := (regs b)(0x40 := (regs b 0x40)
           (channel_reg (PCA9685_LED0_ON_L_REG_ADDR h) 0 := 0,
            channel_reg (PCA9685_LED0_ON_H_REG_ADDR h) 0 := 0,
            channel_reg (PCA9685_LED0_OFF_L_REG_ADDR h) 0 := 0,
            channel_reg (PCA9685_LED0_OFF_H_REG_ADDR h) 0 := 8))\<rparr>)"
    using assms(3) d
    by (simp add: PCA9685_GetPWM_def lim ReadReg_legal lg local_value_def mg)
  show ?thesis
    unfolding i using s g by (simp add: z)
qed

text \<open>
  From an idle bus and a blank handle: the log after \<open>SetPWM\<close> is the open call followed
  by writes of 0x00, 0x00, 0x00, 0x08 to registers 0x06, 0x07, 0x08, 0x09.
\<close>

theorem init_set_get_scenario_witness:
  "regmap_ok pca9685_header \<and> limits_ok pca9685_header
 \<and> (\<forall>n. \<not> faulty idle_bus n)
 \<and> PCA9685_Init (Some blank_conf) 0x40 0 idle_bus
      = (PCA9685LIB_SUCCESS, Some conf40, idle_bus\<lparr>calls := [I2cInit 0]\<rparr>)
 \<and> fst (PCA9685_SetPWM pca9685_header (Some conf40) 0 0 2048 (idle_bus\<lparr>calls := [I2cInit 0]\<rparr>))
      = PCA9685LIB_SUCCESS
 \<and> calls (snd (PCA9685_SetPWM pca9685_header (Some conf40) 0 0 2048
                 (idle_bus\<lparr>calls := [I2cInit 0]\<rparr>)))
      = [I2cInit 0, I2cWrite 0x40 0x06 0x00, I2cWrite 0x40 0x07 0x00,
         I2cWrite 0x40 0x08 0x00, I2cWrite 0x40 0x09 0x08]
 \<and> (\<exists>b3. PCA9685_GetPWM pca9685_header (Some conf40) 0 (Some 1) (Some 1)
        (snd (PCA9685_SetPWM pca9685_header (Some conf40) 0 0 2048
                 (idle_bus\<lparr>calls := [I2cInit 0]\<rparr>)))
      = (PCA9685LIB_SUCCESS, Some 0, Some 2048, b3))"
proof -
  have h1: "regmap_ok pca9685_header" by (rule regmap_ok_pca9685)
  have h2: "limits_ok pca9685_header" by (rule limits_ok_pca9685)
  have h3: "\<forall>n. \<not> faulty idle_bus n" by (simp add: idle_bus_def)
  have i: "PCA9685_Init (Some blank_conf) 0x40 0 idle_bus
      = (PCA9685LIB_SUCCESS, Some conf40, idle_bus\<lparr>calls := [I2cInit 0]\<rparr>)"
    by (simp add: PCA9685_Init_def i2cInit_def blank_conf_def conf40_def idle_bus_def)
  have a: "PCA9685_LED0_ON_L_REG_ADDR pca9685_header = 6"
    "PCA9685_LED0_ON_H_REG_ADDR pca9685_header = 7"
    "PCA9685_LED0_OFF_L_REG_ADDR pca9685_header = 8"
    "PCA9685_LED0_OFF_H_REG_ADDR pca9685_header = 9"
    by (simp_all add: pca9685_header_def)
  from init_set_get_scenario [OF h1 h2 h3, where ?cf0.0 = blank_conf and x = 1 and y = 1]
  obtain b2 b3 where
    "PCA9685_SetPWM pca9685_header (Some conf40) 0 0 2048 (idle_bus\<lparr>calls := [I2cInit 0]\<rparr>)
       = (PCA9685LIB_SUCCESS, b2)"
    "calls b2 = [I2cInit 0, I2cWrite 0x40 0x06 0x00, I2cWrite 0x40 0x07 0x00,
         I2cWrite 0x40 0x08 0x00, I2cWrite 0x40 0x09 0x08]"
    "PCA9685_GetPWM pca9685_header (Some conf40) 0 (Some 1) (Some 1) b2
       = (PCA9685LIB_SUCCESS, Some 0, Some 2048, b3)"
    unfolding i by (auto simp add: a)
  with h1 h2 h3 i show ?thesis by simp
qed

text \<open>
  C8. With the channel limit 15, for every channel index \<open>c > 15\<close> both \<open>SetPWM\<close> and
  \<open>GetPWM\<close> return the error result and leave the bus as it was (no transport call), for
  every handle, all on and off values and all destinations, which keep their content.
\<close>

theorem channel_out_of_range_rejected:
  assumes "PCA9685_MAX_PWM_CHANNELS h = 15" and "15 < unat c"
  shows "PCA9685_SetPWM h controllerConf c on off b = (PCA9685LIB_ERROR, b)
       \<and> PCA9685_GetPWM h controllerConf c onValue offValue b
           = (PCA9685LIB_ERROR, onValue, offValue, b)"
  using assms by (simp add: PCA9685_SetPWM_def PCA9685_GetPWM_def)

text \<open>Channel 16.\<close>

theorem channel_out_of_range_rejected_witness:
  "PCA9685_MAX_PWM_CHANNELS pca9685_header = 15 \<and> 15 < unat (16 :: uint8_t)
 \<and> PCA9685_SetPWM pca9685_header (Some conf40) 16 0 0 idle_bus = (PCA9685LIB_ERROR, idle_bus)
 \<and> PCA9685_GetPWM pca9685_header (Some conf40) 16 (Some 1) (Some 2) idle_bus
      = (PCA9685LIB_ERROR, Some 1, Some 2, idle_bus)"
proof -
  have h1: "PCA9685_MAX_PWM_CHANNELS pca9685_header = 15" by (simp add: pca9685_header_def)
  have h2: "15 < unat (16 :: uint8_t)" by simp
  show ?thesis
    using h1 h2
      channel_out_of_range_rejected [OF h1 h2, where controllerConf = "Some conf40"
        and on = 0 and off = 0 and b = idle_bus and onValue = "Some 1" and offValue = "Some 2"]
    by simp
qed

text \<open>
  C9. With the PWM limit 4095, whenever the on value or the off value exceeds 4095,
  \<open>SetPWM\<close> and \<open>SetAllPWM\<close> return the error result and leave the bus as it was (no
  transport call), whatever the handle, the channel index and the other value.
\<close>

theorem pwm_value_out_of_range_rejected:
  assumes "PCA9685_MAX_PWM_VALUE h = 4095" and "4095 < unat on \<or> 4095 < unat off"
  shows "PCA9685_SetPWM h controllerConf c on off b = (PCA9685LIB_ERROR, b)
       \<and> PCA9685_SetAllPWM h controllerConf on off b = (PCA9685LIB_ERROR, b)"
  using assms by (auto simp add: PCA9685_SetPWM_def PCA9685_SetAllPWM_def)

text \<open>The on value 4096.\<close>

theorem pwm_value_out_of_range_rejected_witness:
  "PCA9685_MAX_PWM_VALUE pca9685_header = 4095 \<and> 4095 < unat (4096 :: uint16_t)
 \<and> PCA9685_SetPWM pca9685_header (Some conf40) 0 4096 0 idle_bus = (PCA9685LIB_ERROR, idle_bus)
 \<and> PCA9685_SetAllPWM pca9685_header (Some conf40) 4096 0 idle_bus = (PCA9685LIB_ERROR, idle_bus)"
proof -
  have h1: "PCA9685_MAX_PWM_VALUE pca9685_header = 4095" by (simp add: pca9685_header_def)
  have h2: "4095 < unat (4096 :: uint16_t)" by simp
  show ?thesis
    using h1 h2
      pwm_value_out_of_range_rejected [OF h1 disjI1 [OF h2], where controllerConf = "Some conf40"
        and off = 0 and c = 0 and b = idle_bus]
    by simp
qed

text \<open>
  C10. \<open>GetPWM\<close> updates its destinations one at a time: when the two ON-register reads
  succeed and the OFF-low read or, after it, the OFF-high read fails, the call returns
  the error result with the on destination holding the on value just read from the
  device and the off destination holding what it held before the call.
\<close>

theorem get_pwm_partial_update:
  assumes "regmap_ok h" and "limits_ok h" and "unat c \<le> 15"
    and "\<not> faulty b (length (calls b))" and "\<not> faulty b (length (calls b) + 1)"
    and "faulty b (length (calls b) + 2) \<or> faulty b (length (calls b) + 3)"
  shows "\<exists>b'. PCA9685_GetPWM h (Some cf) c (Some x) (Some y) b =
      (PCA9685LIB_ERROR,
       Some (merge_bytes (regs b (i2cAddr cf) (channel_reg (PCA9685_LED0_ON_H_REG_ADDR h) c))
                         (regs b (i2cAddr cf) (channel_reg (PCA9685_LED0_ON_L_REG_ADDR h) c))),
       Some y, b')"
proof -
  have lim: "PCA9685_MAX_PWM_CHANNELS h = 15"
    using assms(2) by (simp add: limits_ok_def)
  note lg = channel_regs_legal [OF assms(1,3)]
  from assms(4-6) have f: "\<not> faulty b (length (calls b))" "\<not> faulty b (Suc (length (calls b)))"
    "faulty b (Suc (Suc (length (calls b)))) \<or> faulty b (Suc (Suc (Suc (length (calls b)))))"
    by (simp_all add: numeral_3_eq_3)
  show ?thesis
  proof (cases "faulty b (Suc (Suc (length (calls b))))")
    case True
    with f assms(3) show ?thesis
      by (simp add: PCA9685_GetPWM_def lim ReadReg_legal lg local_value_def)
  next
    case False
    with f have "faulty b (Suc (Suc (Suc (length (calls b)))))" by simp
    with False f assms(3) show ?thesis
      by (simp add: PCA9685_GetPWM_def lim ReadReg_legal lg local_value_def)
  qed
qed

text \<open>
  Every register holds 5 and the third call fails: the on destination, 0 before, holds
  0x0505 after the failed call, and the off destination still holds 9.
\<close>

theorem get_pwm_partial_update_witness:
  "regmap_ok pca9685_header \<and> limits_ok pca9685_header \<and> unat (0 :: uint8_t) \<le> 15
 \<and> \<not> faulty third_call_fails_bus (length (calls third_call_fails_bus))
 \<and> \<not> faulty third_call_fails_bus (length (calls third_call_fails_bus) + 1)
 \<and> faulty third_call_fails_bus (length (calls third_call_fails_bus) + 2)
 \<and> (\<exists>b'. PCA9685_GetPWM pca9685_header (Some conf40) 0 (Some 0) (Some 9) third_call_fails_bus
       = (PCA9685LIB_ERROR, Some 0x0505, Some 9, b'))"
proof -
  have h1: "regmap_ok pca9685_header" by (rule regmap_ok_pca9685)
  have h2: "limits_ok pca9685_header" by (rule limits_ok_pca9685)
  have h3: "unat (0 :: uint8_t) \<le> 15" by simp
  have h4: "\<not> faulty third_call_fails_bus (length (calls third_call_fails_bus))"
    by (simp add: third_call_fails_bus_def)
  have h5: "\<not> faulty third_call_fails_bus (length (calls third_call_fails_bus) + 1)"
    by (simp add: third_call_fails_bus_def)
  have h6: "faulty third_call_fails_bus (length (calls third_call_fails_bus) + 2)"
    by (simp add: third_call_fails_bus_def)
  have a: "regs third_call_fails_bus = (\<lambda>addr reg. 5)" "merge_bytes 5 5 = 0x0505"
    by (simp_all add: third_call_fails_bus_def merge_bytes_def)
  show ?thesis
    using h1 h2 h3 h4 h5 h6
      get_pwm_partial_update [OF h1 h2 h3 h4 h5 disjI1 [OF h6],
        where cf = conf40 and x = 0 and y = 9]
    by (simp add: a)
qed

end
